theory Spec2Isabelle
  imports Complex_Main
begin

section \<open>The card stack: data model\<close>

text \<open>
  The widget is two React components. \<open>SuperSwiper\<close> (the controller) owns the cursor
  \<open>currentIndexRef.current\<close>, the lock \<open>isTransitioning\<close> and the undo log
  \<open>swipedCardIndices\<close>; \<open>Card\<close> (the gesture surface) owns the shared animation values of
  one card and reports to the controller through the callback props \<open>onSwipeStart\<close>,
  \<open>onSwipeComplete\<close> and \<open>onSwipeCancel\<close>.

  Numbers: gesture displacements and the threshold are modelled as \<open>real\<close>. The code
  only negates, takes absolute values of and compares displacements, which is exact on
  finite floating-point numbers, so the order of the reals is the order the code sees.
  The cursor, the indices and \<open>stackSize\<close> are values of \<open>JSNumber\<close> below: nothing in
  the code makes the caller's \<open>initialCardIndex\<close> or the argument of \<open>jumpToCardIndex\<close>
  an integer, or a number that compares at all.

  Every handler is modelled as running against the state of the latest render: calls are
  taken one at a time, each after the re-render the previous one caused.
\<close>

datatype SwipeDirection = Left | Right

subsection \<open>JavaScript numbers\<close>

text \<open>
  A JavaScript number is a finite number, \<open>NaN\<close>, \<open>Infinity\<close> or \<open>-Infinity\<close>. Every
  comparison with \<open>NaN\<close> is false, and \<open>NaN\<close> absorbs addition. Finite numbers are
  reals here: adding and subtracting 1 is exact on the integers below \<open>2^53\<close>, which
  are the cursors a widget reaches from integer inputs; on other finite values the
  rounding of the floating-point sum is not modelled.
\<close>

datatype JSNumber = Num real | NaN | Infinity | NegInfinity

fun jsLess :: "JSNumber \<Rightarrow> JSNumber \<Rightarrow> bool" where
  "jsLess (Num a) (Num b) = (a < b)"
| "jsLess (Num a) Infinity = True"
| "jsLess NegInfinity (Num b) = True"
| "jsLess NegInfinity Infinity = True"
| "jsLess _ _ = False"

fun jsLessEq :: "JSNumber \<Rightarrow> JSNumber \<Rightarrow> bool" where
  "jsLessEq (Num a) (Num b) = (a \<le> b)"
| "jsLessEq (Num a) Infinity = True"
| "jsLessEq NegInfinity (Num b) = True"
| "jsLessEq NegInfinity Infinity = True"
| "jsLessEq Infinity Infinity = True"
| "jsLessEq NegInfinity NegInfinity = True"
| "jsLessEq _ _ = False"

fun jsAdd :: "JSNumber \<Rightarrow> JSNumber \<Rightarrow> JSNumber" where
  "jsAdd (Num a) (Num b) = Num (a + b)"
| "jsAdd NaN _ = NaN"
| "jsAdd _ NaN = NaN"
| "jsAdd Infinity NegInfinity = NaN"
| "jsAdd NegInfinity Infinity = NaN"
| "jsAdd Infinity _ = Infinity"
| "jsAdd _ Infinity = Infinity"
| "jsAdd NegInfinity _ = NegInfinity"
| "jsAdd _ NegInfinity = NegInfinity"

fun jsNeg :: "JSNumber \<Rightarrow> JSNumber" where
  "jsNeg (Num a) = Num (- a)"
| "jsNeg NaN = NaN"
| "jsNeg Infinity = NegInfinity"
| "jsNeg NegInfinity = Infinity"

definition jsSub :: "JSNumber \<Rightarrow> JSNumber \<Rightarrow> JSNumber" where
  "jsSub a b = jsAdd a (jsNeg b)"

text \<open>\<open>Number.isInteger\<close>, and the length of an array as a number.\<close>

fun isInteger :: "JSNumber \<Rightarrow> bool" where
  "isInteger (Num a) = (of_int \<lfloor>a\<rfloor> = a)"
| "isInteger _ = False"

definition jsLength :: "'a list \<Rightarrow> JSNumber" where
  "jsLength xs = Num (of_nat (length xs))"

subsection \<open>Props and state\<close>

text \<open>The caller's callbacks, logged in the order the controller invokes them.\<close>

datatype Callback =
    OnSwipedLeft JSNumber
  | OnSwipedRight JSNumber
  | OnSwipeStart SwipeDirection
  | OnSwipeEnd JSNumber
  | OnSwipeBack

text \<open>
  The props the control logic reads. \<open>screenWidth\<close> stands for
  \<open>Dimensions.get('window').width\<close>, a platform constant.
\<close>

record 'a SuperSwiperProps =
  cards :: "'a list"
  stackSize :: JSNumber
  swipeThreshold :: real
  initialCardIndex :: JSNumber
  disableLeftSwipe :: bool
  disableRightSwipe :: bool
  screenWidth :: real

record SuperSwiperState =
  currentIndex :: JSNumber
  isTransitioning :: bool
  swipedCardIndices :: "JSNumber list"
  forceRenderKey :: nat
  emitted :: "Callback list"

text \<open>The callback props a card can invoke on its parent.\<close>

datatype CardCallback = SwipeStart SwipeDirection | SwipeComplete SwipeDirection | SwipeCancel

text \<open>
  The shared values of the active card. A value that is being animated is recorded by the
  value the animation settles at. \<open>exiting\<close> is the exit animation assigned to
  \<open>offsetX\<close> by \<open>withTiming\<close>, whose completion callback notifies the controller; any
  later assignment to \<open>offsetX\<close> replaces it, and a replaced animation reports
  \<open>finished = false\<close>, on which the code does nothing. \<open>sent\<close> logs the callback props
  the surface has invoked; the log is kept when the surface passes to the next card.
\<close>

record CardState =
  offsetX :: real
  offsetY :: real
  scale :: real
  isDragging :: bool
  exiting :: "SwipeDirection option"
  sent :: "CardCallback list"

record PanEvent =
  translationX :: real
  translationY :: real

type_synonym Widget = "SuperSwiperState \<times> CardState"

section \<open>The controller (SuperSwiper)\<close>

definition initialState :: "'a SuperSwiperProps \<Rightarrow> SuperSwiperState" where
  "initialState p =
     \<lparr>currentIndex = initialCardIndex p, isTransitioning = False,
      swipedCardIndices = [], forceRenderKey = 0, emitted = []\<rparr>"

definition handleSwipeStart :: "SwipeDirection \<Rightarrow> SuperSwiperState \<Rightarrow> SuperSwiperState" where
  "handleSwipeStart direction s =
     s\<lparr>isTransitioning := True, emitted := emitted s @ [OnSwipeStart direction]\<rparr>"

definition handleSwipeComplete :: "SwipeDirection \<Rightarrow> SuperSwiperState \<Rightarrow> SuperSwiperState" where
  "handleSwipeComplete direction s =
     (let cardIndex = currentIndex s in
      s\<lparr>swipedCardIndices := swipedCardIndices s @ [cardIndex],
        emitted := emitted s @
          [if direction = Left then OnSwipedLeft cardIndex else OnSwipedRight cardIndex,
           OnSwipeEnd cardIndex],
        currentIndex := jsAdd (currentIndex s) (Num 1),
        isTransitioning := False\<rparr>)"

definition handleSwipeCancel :: "SuperSwiperState \<Rightarrow> SuperSwiperState" where
  "handleSwipeCancel s = s\<lparr>isTransitioning := False\<rparr>"

definition swipeBack :: "SuperSwiperState \<Rightarrow> SuperSwiperState" where
  "swipeBack s =
     (if jsLessEq (currentIndex s) (Num 0) \<or> length (swipedCardIndices s) = 0 then s
      else s\<lparr>currentIndex := jsSub (currentIndex s) (Num 1),
             swipedCardIndices := butlast (swipedCardIndices s),
             emitted := emitted s @ [OnSwipeBack]\<rparr>)"

definition jumpToCardIndex :: "'a SuperSwiperProps \<Rightarrow> JSNumber \<Rightarrow> SuperSwiperState \<Rightarrow> SuperSwiperState" where
  "jumpToCardIndex p index s =
     (if jsLess index (Num 0) \<or> jsLessEq (jsLength (cards p)) index then s
      else s\<lparr>currentIndex := index, forceRenderKey := forceRenderKey s + 1\<rparr>)"

text \<open>
  \<open>renderCards\<close> and \<open>renderCardItem\<close>: \<open>cards.map\<close> offers every array index; the card
  at \<open>index\<close> is rendered unless the stack is exhausted
  (\<open>currentIndex >= cards.length\<close>), \<open>index < currentIndex\<close> or
  \<open>index >= currentIndex + stackSize\<close>. It is the active one, and holds
  \<open>activeCardRef\<close>, when \<open>index === currentIndex\<close>: there is such an index only where the
  cursor is an integer, and then it is the cursor.
\<close>

definition rendered :: "'a SuperSwiperProps \<Rightarrow> SuperSwiperState \<Rightarrow> int \<Rightarrow> bool" where
  "rendered p s index =
     (0 \<le> index \<and> index < int (length (cards p)) \<and>
      \<not> jsLessEq (jsLength (cards p)) (currentIndex s) \<and>
      \<not> (jsLess (Num (of_int index)) (currentIndex s) \<or>
         jsLessEq (jsAdd (currentIndex s) (stackSize p)) (Num (of_int index))))"

definition activeCardMounted :: "'a SuperSwiperProps \<Rightarrow> SuperSwiperState \<Rightarrow> bool" where
  "activeCardMounted p s =
     (case currentIndex s of
        Num a \<Rightarrow> of_int \<lfloor>a\<rfloor> = a \<and> rendered p s \<lfloor>a\<rfloor>
      | _ \<Rightarrow> False)"

section \<open>The gesture surface (Card)\<close>

definition initialCard :: CardState where
  "initialCard =
     \<lparr>offsetX = 0, offsetY = 0, scale = 1, isDragging = False, exiting = None, sent = []\<rparr>"

fun triggerFullSwipe :: "'a SuperSwiperProps \<Rightarrow> SwipeDirection \<Rightarrow> Widget \<Rightarrow> Widget" where
  "triggerFullSwipe p direction (s, c) =
     (if direction = Left \<and> \<not> disableLeftSwipe p then
        (handleSwipeStart Left s,
         c\<lparr>sent := sent c @ [SwipeStart Left],
           offsetX := - screenWidth p - 100, exiting := Some Left\<rparr>)
      else if direction = Right \<and> \<not> disableRightSwipe p then
        (handleSwipeStart Right s,
         c\<lparr>sent := sent c @ [SwipeStart Right],
           offsetX := screenWidth p + 100, exiting := Some Right\<rparr>)
      else (s, c))"

definition onBegin :: "CardState \<Rightarrow> CardState" where
  "onBegin c = c\<lparr>isDragging := True\<rparr>"

definition onUpdate :: "PanEvent \<Rightarrow> CardState \<Rightarrow> CardState" where
  "onUpdate event c =
     c\<lparr>offsetX := translationX event,
       offsetY := \<bar>translationX event\<bar> * (- 0.1),
       scale := 1 + \<bar>translationX event\<bar> * 0.0001,
       exiting := None\<rparr>"

fun onEnd :: "'a SuperSwiperProps \<Rightarrow> PanEvent \<Rightarrow> Widget \<Rightarrow> Widget" where
  "onEnd p event (s, c) =
     (let c' = c\<lparr>isDragging := False\<rparr>;
          shouldSwipe = \<bar>translationX event\<bar> > swipeThreshold p;
          swipeDirection = (if translationX event > 0 then Right else Left)
      in if shouldSwipe \<and> swipeDirection = Left \<and> \<not> disableLeftSwipe p then
           triggerFullSwipe p Left (s, c')
         else if shouldSwipe \<and> swipeDirection = Right \<and> \<not> disableRightSwipe p then
           triggerFullSwipe p Right (s, c')
         else (s, c'\<lparr>offsetX := 0, offsetY := 0, scale := 1, exiting := None\<rparr>))"

text \<open>
  The exit animation finishes: its callback runs \<open>notifySwipeCompleted\<close>, which invokes
  \<open>onSwipeComplete\<close>, the controller's \<open>handleSwipeComplete\<close>. The cursor moves on, and
  the surface is from then on the next card's, mounted with its initial shared values.
\<close>

fun exitFinished :: "Widget \<Rightarrow> Widget" where
  "exitFinished (s, c) =
     (case exiting c of
        None \<Rightarrow> (s, c)
      | Some direction \<Rightarrow>
          (handleSwipeComplete direction s,
           initialCard\<lparr>sent := sent c @ [SwipeComplete direction]\<rparr>))"

section \<open>The imperative handle and the whole widget\<close>

text \<open>
  \<open>swipeLeft\<close> and \<open>swipeRight\<close> reach the active card through \<open>activeCardRef.current?.\<close>,
  which is null when no card is active.
\<close>

fun swipeLeft :: "'a SuperSwiperProps \<Rightarrow> Widget \<Rightarrow> Widget" where
  "swipeLeft p (s, c) =
     (if disableLeftSwipe p \<or> isTransitioning s \<or>
         jsLessEq (jsLength (cards p)) (currentIndex s)
      then (s, c)
      else if activeCardMounted p s then triggerFullSwipe p Left (s, c) else (s, c))"

fun swipeRight :: "'a SuperSwiperProps \<Rightarrow> Widget \<Rightarrow> Widget" where
  "swipeRight p (s, c) =
     (if disableRightSwipe p \<or> isTransitioning s \<or>
         jsLessEq (jsLength (cards p)) (currentIndex s)
      then (s, c)
      else if activeCardMounted p s then triggerFullSwipe p Right (s, c) else (s, c))"

text \<open>
  What can happen to a mounted widget: a call on the imperative handle, a pan gesture on
  the active card (the detector of every other card is disabled, and with no active card
  mounted there is nothing to touch), or the end of the exit animation. \<open>swipeBack\<close> and
  \<open>jumpToCardIndex\<close> write the controller only; an exit animation in flight stays in
  flight across them and may still finish, which gives the runs of the model every
  interleaving the widget can show.
\<close>

datatype Action =
    SwipeLeftCall
  | SwipeRightCall
  | SwipeBackCall
  | JumpToCardIndexCall JSNumber
  | PanBegin
  | PanUpdate PanEvent
  | PanEnd PanEvent
  | ExitFinished

fun step :: "'a SuperSwiperProps \<Rightarrow> Action \<Rightarrow> Widget \<Rightarrow> Widget" where
  "step p SwipeLeftCall w = swipeLeft p w"
| "step p SwipeRightCall w = swipeRight p w"
| "step p SwipeBackCall (s, c) = (swipeBack s, c)"
| "step p (JumpToCardIndexCall index) (s, c) = (jumpToCardIndex p index s, c)"
| "step p PanBegin (s, c) = (if activeCardMounted p s then (s, onBegin c) else (s, c))"
| "step p (PanUpdate event) (s, c) =
     (if activeCardMounted p s then (s, onUpdate event c) else (s, c))"
| "step p (PanEnd event) (s, c) =
     (if activeCardMounted p s then onEnd p event (s, c) else (s, c))"
| "step p ExitFinished w = exitFinished w"

fun run :: "'a SuperSwiperProps \<Rightarrow> Action list \<Rightarrow> Widget \<Rightarrow> Widget" where
  "run p [] w = w"
| "run p (a # as) w = run p as (step p a w)"

definition initialWidget :: "'a SuperSwiperProps \<Rightarrow> Widget" where
  "initialWidget p = (initialState p, initialCard)"

text \<open>
  The default props for a deck of \<open>n\<close> cards on a screen 400 wide:
  \<open>DEFAULT_SWIPE_THRESHOLD = SCREEN_WIDTH * 0.25\<close>.
\<close>

definition defaultProps :: "nat \<Rightarrow> unit SuperSwiperProps" where
  "defaultProps n =
     \<lparr>cards = replicate n (), stackSize = Num 3, swipeThreshold = 400 * 0.25,
      initialCardIndex = Num 0, disableLeftSwipe = False, disableRightSwipe = False,
      screenWidth = 400\<rparr>"

text \<open>
  The object \<open>useImperativeHandle\<close> exposes: its property names, each with the action a
  call of it performs.
\<close>

datatype HandleMethod = Nullary Action | Unary "JSNumber \<Rightarrow> Action"

definition SuperSwiperHandles :: "(string \<times> HandleMethod) list" where
  "SuperSwiperHandles =
     [(''swipeLeft'', Nullary SwipeLeftCall),
      (''swipeRight'', Nullary SwipeRightCall),
      (''swipeBack'', Nullary SwipeBackCall),
      (''jumpToCardIndex'', Unary JumpToCardIndexCall)]"

text \<open>
  A run of successful commits: every action starts an exit animation where none was in
  flight, and the animation then finishes.
\<close>

fun commits :: "'a SuperSwiperProps \<Rightarrow> Action list \<Rightarrow> Widget \<Rightarrow> Widget option" where
  "commits p [] w = Some w"
| "commits p (a # as) w =
     (if exiting (snd w) = None \<and> exiting (snd (step p a w)) \<noteq> None
      then commits p as (exitFinished (step p a w))
      else None)"

text \<open>
  A run in which every \<open>jumpToCardIndex\<close> aims at an index that is not below the length
  the history has at that moment.
\<close>

fun jumpsClearHistory :: "'a SuperSwiperProps \<Rightarrow> Action list \<Rightarrow> Widget \<Rightarrow> bool" where
  "jumpsClearHistory p [] w = True"
| "jumpsClearHistory p (a # as) w =
     ((case a of
         JumpToCardIndexCall index \<Rightarrow> jsLessEq (jsLength (swipedCardIndices (fst w))) index
       | _ \<Rightarrow> True) \<and>
      jumpsClearHistory p as (step p a w))"

text \<open>A run in which every \<open>jumpToCardIndex\<close> is given an integer.\<close>

fun integerJumps :: "Action list \<Rightarrow> bool" where
  "integerJumps [] = True"
| "integerJumps (a # as) =
     ((case a of JumpToCardIndexCall index \<Rightarrow> isInteger index | _ \<Rightarrow> True) \<and>
      integerJumps as)"

text \<open>
  The cursor is an integer within the deck, and strictly inside it while an exit animation
  is in flight.
\<close>

definition inRange :: "'a SuperSwiperProps \<Rightarrow> Widget \<Rightarrow> bool" where
  "inRange p w =
     (isInteger (currentIndex (fst w)) \<and> jsLessEq (Num 0) (currentIndex (fst w)) \<and>
      jsLessEq (currentIndex (fst w)) (jsLength (cards p)) \<and>
      (exiting (snd w) = None \<or> jsLess (currentIndex (fst w)) (jsLength (cards p))))"

section \<open>The revision of the controller with the up direction\<close>

text \<open>
  The repository holds a second revision of \<open>SuperSwiper\<close>, written against the
  documented \<open>types\<close> (\<open>SwipeDirection = 'left' | 'right' | 'up'\<close>, the props
  \<open>swipeLeftEnabled\<close>, \<open>swipeRightEnabled\<close>, \<open>swipeUpEnabled\<close>). It keeps the cursor in
  \<open>useState(0)\<close>, caps the undo log at 50 entries and exposes \<open>swipeUp\<close>. Its names carry
  a prime here. The \<open>Card\<close> of that revision is not among the sources, so the handle's
  swipe methods are modelled by the method of \<open>CardHandles\<close> they invoke on the active
  card, if any.
\<close>

datatype SwipeDirection' = Left' | Right' | Up'

datatype Callback' =
    OnSwipedLeft' JSNumber
  | OnSwipedRight' JSNumber
  | OnSwipedUp' JSNumber
  | OnSwipeBack'
  | OnSwipeStart' SwipeDirection'
  | OnSwipeEnd' JSNumber

record 'a SuperSwiperProps' =
  cards' :: "'a list"
  stackSize' :: JSNumber
  swipeThreshold' :: real
  swipeLeftEnabled :: bool
  swipeRightEnabled :: bool
  swipeUpEnabled :: bool
  swipeBackEnabled :: bool

record SuperSwiperState' =
  currentCardIndex :: JSNumber
  isTransitioning' :: bool
  swipedCardIndices' :: "JSNumber list"
  emitted' :: "Callback' list"

datatype CardHandles' = TriggerSwipeLeft | TriggerSwipeRight | TriggerSwipeUp

definition initialState' :: SuperSwiperState' where
  "initialState' =
     \<lparr>currentCardIndex = Num 0, isTransitioning' = False, swipedCardIndices' = [], emitted' = []\<rparr>"

definition handleSwipeStart' :: "SwipeDirection' \<Rightarrow> SuperSwiperState' \<Rightarrow> SuperSwiperState'" where
  "handleSwipeStart' direction s =
     s\<lparr>isTransitioning' := True, emitted' := emitted' s @ [OnSwipeStart' direction]\<rparr>"

definition handleSwipeComplete' :: "SwipeDirection' \<Rightarrow> SuperSwiperState' \<Rightarrow> SuperSwiperState'" where
  "handleSwipeComplete' direction s =
     (let cardIndex = currentCardIndex s;
          updated = swipedCardIndices' s @ [cardIndex]
      in s\<lparr>swipedCardIndices' :=
             (if length updated > 50 then drop (length updated - 50) updated else updated),
           emitted' := emitted' s @
             (case direction of
                Left' \<Rightarrow> [OnSwipedLeft' cardIndex]
              | Right' \<Rightarrow> [OnSwipedRight' cardIndex]
              | Up' \<Rightarrow> [OnSwipedUp' cardIndex]) @
             [OnSwipeEnd' cardIndex],
           currentCardIndex := jsAdd (currentCardIndex s) (Num 1),
           isTransitioning' := False\<rparr>)"

definition handleSwipeCancel' :: "SuperSwiperState' \<Rightarrow> SuperSwiperState'" where
  "handleSwipeCancel' s = s\<lparr>isTransitioning' := False\<rparr>"

definition activeCardMounted' :: "'a SuperSwiperProps' \<Rightarrow> SuperSwiperState' \<Rightarrow> bool" where
  "activeCardMounted' p s =
     (case currentCardIndex s of
        Num a \<Rightarrow>
          of_int \<lfloor>a\<rfloor> = a \<and> 0 \<le> \<lfloor>a\<rfloor> \<and> \<lfloor>a\<rfloor> < int (length (cards' p)) \<and>
          \<not> jsLessEq (jsLength (cards' p)) (currentCardIndex s) \<and>
          \<not> (jsLess (Num a) (currentCardIndex s) \<or>
             jsLessEq (jsAdd (currentCardIndex s) (stackSize' p)) (Num a))
      | _ \<Rightarrow> False)"

definition swipeLeft' :: "'a SuperSwiperProps' \<Rightarrow> SuperSwiperState' \<Rightarrow> CardHandles' option" where
  "swipeLeft' p s =
     (if \<not> swipeLeftEnabled p \<or> isTransitioning' s \<or>
         jsLessEq (jsLength (cards' p)) (currentCardIndex s)
      then None
      else if activeCardMounted' p s then Some TriggerSwipeLeft else None)"

definition swipeRight' :: "'a SuperSwiperProps' \<Rightarrow> SuperSwiperState' \<Rightarrow> CardHandles' option" where
  "swipeRight' p s =
     (if \<not> swipeRightEnabled p \<or> isTransitioning' s \<or>
         jsLessEq (jsLength (cards' p)) (currentCardIndex s)
      then None
      else if activeCardMounted' p s then Some TriggerSwipeRight else None)"

definition swipeUp' :: "'a SuperSwiperProps' \<Rightarrow> SuperSwiperState' \<Rightarrow> CardHandles' option" where
  "swipeUp' p s =
     (if \<not> swipeUpEnabled p \<or> isTransitioning' s \<or>
         jsLessEq (jsLength (cards' p)) (currentCardIndex s)
      then None
      else if activeCardMounted' p s then Some TriggerSwipeUp else None)"

definition swipeBack' :: "SuperSwiperState' \<Rightarrow> SuperSwiperState'" where
  "swipeBack' s =
     (if jsLessEq (currentCardIndex s) (Num 0) \<or> length (swipedCardIndices' s) = 0 then s
      else s\<lparr>currentCardIndex := jsSub (currentCardIndex s) (Num 1),
             swipedCardIndices' := butlast (swipedCardIndices' s),
             emitted' := emitted' s @ [OnSwipeBack']\<rparr>)"

definition jumpToCardIndex' :: "'a SuperSwiperProps' \<Rightarrow> JSNumber \<Rightarrow> SuperSwiperState' \<Rightarrow> SuperSwiperState'" where
  "jumpToCardIndex' p index s =
     (if jsLess index (Num 0) \<or> jsLessEq (jsLength (cards' p)) index then s
      else s\<lparr>currentCardIndex := index\<rparr>)"

text \<open>
  The entry points through which the controller state of this revision can change: the
  three sinks a card calls, and the handle's \<open>swipeBack\<close> and \<open>jumpToCardIndex\<close>.
\<close>

datatype Entry' =
    StartSink SwipeDirection'
  | CompleteSink SwipeDirection'
  | CancelSink
  | SwipeBackCall'
  | JumpToCardIndexCall' JSNumber

fun step' :: "'a SuperSwiperProps' \<Rightarrow> Entry' \<Rightarrow> SuperSwiperState' \<Rightarrow> SuperSwiperState'" where
  "step' p (StartSink d) s = handleSwipeStart' d s"
| "step' p (CompleteSink d) s = handleSwipeComplete' d s"
| "step' p CancelSink s = handleSwipeCancel' s"
| "step' p SwipeBackCall' s = swipeBack' s"
| "step' p (JumpToCardIndexCall' index) s = jumpToCardIndex' p index s"

fun run' :: "'a SuperSwiperProps' \<Rightarrow> Entry' list \<Rightarrow> SuperSwiperState' \<Rightarrow> SuperSwiperState'" where
  "run' p [] s = s"
| "run' p (e # es) s = run' p es (step' p e s)"

text \<open>The default props of this revision for a deck of \<open>n\<close> cards.\<close>

definition defaultProps' :: "nat \<Rightarrow> unit SuperSwiperProps'" where
  "defaultProps' n =
     \<lparr>cards' = replicate n (), stackSize' = Num 3, swipeThreshold' = 400 * 0.25,
      swipeLeftEnabled = True, swipeRightEnabled = True, swipeUpEnabled = True,
      swipeBackEnabled = True\<rparr>"

definition SuperSwiperHandles' :: "string list" where
  "SuperSwiperHandles' =
     [''swipeLeft'', ''swipeRight'', ''swipeUp'', ''swipeBack'', ''jumpToCardIndex'']"

section \<open>Properties\<close>

subsection \<open>JavaScript numbers and the active card\<close>

text \<open>Subtracting a finite number.\<close>

lemma jsSub_Num [simp]: "jsSub (Num a) (Num b) = Num (a - b)"
  by (simp add: jsSub_def)

lemma jsSub_one [simp]:
  "jsSub NaN (Num b) = NaN" "jsSub Infinity (Num b) = Infinity"
  "jsSub NegInfinity (Num b) = NegInfinity"
  by (simp_all add: jsSub_def)

text \<open>
  A card is active exactly where the cursor is an integer index of the deck and
  \<open>stackSize\<close> is not \<open>\<le> 0\<close>.
\<close>

lemma activeCardMounted_iff:
  "activeCardMounted p s =
     (\<exists>k. currentIndex s = Num (of_int k) \<and> 0 \<le> k \<and> k < int (length (cards p)) \<and>
          \<not> jsLessEq (stackSize p) (Num 0))"
proof (cases "currentIndex s")
  case (Num a)
  show ?thesis
  proof
    assume m: "activeCardMounted p s"
    with Num have i: "of_int \<lfloor>a\<rfloor> = a" and r: "rendered p s \<lfloor>a\<rfloor>"
      by (simp_all add: activeCardMounted_def)
    from r Num i have "0 \<le> \<lfloor>a\<rfloor>" "\<lfloor>a\<rfloor> < int (length (cards p))"
      "\<not> jsLessEq (jsAdd (Num a) (stackSize p)) (Num a)"
      by (simp_all add: rendered_def)
    moreover from this(3) have "\<not> jsLessEq (stackSize p) (Num 0)"
      by (cases "stackSize p") simp_all
    ultimately show "\<exists>k. currentIndex s = Num (of_int k) \<and> 0 \<le> k \<and> k < int (length (cards p)) \<and>
          \<not> jsLessEq (stackSize p) (Num 0)"
      using Num i by (intro exI[of _ "\<lfloor>a\<rfloor>"]) auto
  next
    assume "\<exists>k. currentIndex s = Num (of_int k) \<and> 0 \<le> k \<and> k < int (length (cards p)) \<and>
          \<not> jsLessEq (stackSize p) (Num 0)"
    then obtain k where k: "currentIndex s = Num (of_int k)" "0 \<le> k" "k < int (length (cards p))"
      and st: "\<not> jsLessEq (stackSize p) (Num 0)" by blast
    from st have "\<not> jsLessEq (jsAdd (Num (of_int k)) (stackSize p)) (Num (of_int k))"
      by (cases "stackSize p") simp_all
    with k show "activeCardMounted p s"
      by (simp add: activeCardMounted_def rendered_def jsLength_def)
  qed
qed (auto simp: activeCardMounted_def)

lemma mounted_not_exhausted:
  "activeCardMounted p s \<Longrightarrow> \<not> jsLessEq (jsLength (cards p)) (currentIndex s)"
  by (auto simp: activeCardMounted_iff jsLength_def)

lemma mounted_below_length:
  "activeCardMounted p s \<Longrightarrow> jsLess (currentIndex s) (jsLength (cards p))"
  by (auto simp: activeCardMounted_iff jsLength_def)

subsection \<open>Completion of a commit (C1)\<close>


text \<open>
  Both ways into a commit end in that handler: an accepted call of the handle, and a
  release past the threshold, each followed by the end of the exit animation.
\<close>

lemma programmatic_commit:
  assumes "\<not> disableRightSwipe p" and "\<not> isTransitioning s" and "activeCardMounted p s"
  shows "run p [SwipeRightCall, ExitFinished] (s, c) =
         (handleSwipeComplete Right (handleSwipeStart Right s),
          initialCard\<lparr>sent := sent c @ [SwipeStart Right, SwipeComplete Right]\<rparr>)"
  using assms mounted_not_exhausted[of p s] by simp

lemma programmatic_commit_left:
  assumes "\<not> disableLeftSwipe p" and "\<not> isTransitioning s" and "activeCardMounted p s"
  shows "run p [SwipeLeftCall, ExitFinished] (s, c) =
         (handleSwipeComplete Left (handleSwipeStart Left s),
          initialCard\<lparr>sent := sent c @ [SwipeStart Left, SwipeComplete Left]\<rparr>)"
  using assms mounted_not_exhausted[of p s] by simp

lemma gesture_commit:
  assumes "activeCardMounted p s" and "\<bar>translationX e\<bar> > swipeThreshold p"
    and "d = (if translationX e > 0 then Right else Left)"
    and "if d = Left then \<not> disableLeftSwipe p else \<not> disableRightSwipe p"
  shows "run p [PanEnd e, ExitFinished] (s, c) =
         (handleSwipeComplete d (handleSwipeStart d s),
          initialCard\<lparr>sent := sent c @ [SwipeStart d, SwipeComplete d]\<rparr>)"
  using assms by (auto simp: Let_def split: if_splits)

subsection \<open>History and cursor (C2)\<close>

lemma jsLessEq_step_up:
  "jsLessEq (Num r) x \<Longrightarrow> jsLessEq (Num (1 + r)) (jsAdd x (Num 1))"
  by (cases x) simp_all

lemma jsLessEq_step_down:
  "jsLessEq (Num (real (length xs))) x \<Longrightarrow> xs \<noteq> [] \<Longrightarrow>
     jsLessEq (Num (real (length xs - Suc 0))) (jsSub x (Num 1))"
  by (cases x; cases xs) simp_all

lemma step_history_within_cursor:
  assumes "jsLessEq (jsLength (swipedCardIndices s)) (currentIndex s)"
    and "case a of JumpToCardIndexCall index \<Rightarrow> jsLessEq (jsLength (swipedCardIndices s)) index
         | _ \<Rightarrow> True"
    and "step p a (s, c) = (s', c')"
  shows "jsLessEq (jsLength (swipedCardIndices s')) (currentIndex s')"
  using assms
  by (cases a)
     (auto simp: onBegin_def onUpdate_def Let_def jsLength_def
        swipeBack_def jumpToCardIndex_def handleSwipeStart_def handleSwipeComplete_def
        jsLessEq_step_up jsLessEq_step_down
        split: if_splits option.splits)

lemma run_history_within_cursor:
  assumes "jsLessEq (jsLength (swipedCardIndices s)) (currentIndex s)"
    and "jumpsClearHistory p as (s, c)"
  shows "jsLessEq (jsLength (swipedCardIndices (fst (run p as (s, c)))))
           (currentIndex (fst (run p as (s, c))))"
  using assms
proof (induction as arbitrary: s c)
  case Nil
  then show ?case by simp
next
  case (Cons a as)
  obtain s' c' where st: "step p a (s, c) = (s', c')" by (cases "step p a (s, c)")
  from Cons.prems(2) have here:
    "case a of JumpToCardIndexCall index \<Rightarrow> jsLessEq (jsLength (swipedCardIndices s)) index
     | _ \<Rightarrow> True"
    and rest: "jumpsClearHistory p as (s', c')"
    using st by (auto split: Action.splits)
  from step_history_within_cursor[OF Cons.prems(1) here st]
  have "jsLessEq (jsLength (swipedCardIndices s')) (currentIndex s')" .
  from Cons.IH[OF this rest] st show ?case by simp
qed

text \<open>
  C2 (history no longer than the cursor), as amended. When the widget is mounted with a
  non-negative \<open>initialCardIndex\<close>, the history is never longer than the cursor in any run
  of handle calls, gestures and animation completions whose jumps aim at or above the
  length of the history. \<open>jumpToCardIndex\<close> sets the cursor and leaves the history as it
  is, so a jump below that length puts the cursor under it.
\<close>

theorem history_within_cursor:
  assumes "jsLessEq (Num 0) (initialCardIndex p)" and "jumpsClearHistory p as (initialWidget p)"
  shows "jsLessEq (jsLength (swipedCardIndices (fst (run p as (initialWidget p)))))
           (currentIndex (fst (run p as (initialWidget p)))) \<and>
         swipedCardIndices (jumpToCardIndex p i s) = swipedCardIndices s"
proof -
  have "jsLessEq (jsLength (swipedCardIndices (initialState p))) (currentIndex (initialState p))"
    using assms(1) by (simp add: initialState_def jsLength_def)
  from run_history_within_cursor[OF this, of p as initialCard] assms(2)
  show ?thesis by (simp add: initialWidget_def jumpToCardIndex_def)
qed

theorem history_within_cursor_witness:
  "jsLessEq (Num 0) (initialCardIndex (defaultProps 3)) \<and>
   jumpsClearHistory (defaultProps 3)
     [SwipeRightCall, ExitFinished, JumpToCardIndexCall (Num 2), SwipeBackCall]
     (initialWidget (defaultProps 3)) \<and>
   fst (run (defaultProps 3)
     [SwipeRightCall, ExitFinished, JumpToCardIndexCall (Num 2), SwipeBackCall]
     (initialWidget (defaultProps 3))) =
     \<lparr>currentIndex = Num 1, isTransitioning = False, swipedCardIndices = [],
      forceRenderKey = 1,
      emitted = [OnSwipeStart Right, OnSwipedRight (Num 0), OnSwipeEnd (Num 0), OnSwipeBack]\<rparr> \<and>
   jsLessEq (jsLength (swipedCardIndices (fst (run (defaultProps 3)
     [SwipeRightCall, ExitFinished, JumpToCardIndexCall (Num 2), SwipeBackCall]
     (initialWidget (defaultProps 3))))))
   (currentIndex (fst (run (defaultProps 3)
     [SwipeRightCall, ExitFinished, JumpToCardIndexCall (Num 2), SwipeBackCall]
     (initialWidget (defaultProps 3)))))"
proof -
  have h1: "jsLessEq (Num 0) (initialCardIndex (defaultProps 3))" by (simp add: defaultProps_def)
  have h2: "jumpsClearHistory (defaultProps 3)
     [SwipeRightCall, ExitFinished, JumpToCardIndexCall (Num 2), SwipeBackCall]
     (initialWidget (defaultProps 3))"
    by (simp add: defaultProps_def initialWidget_def initialState_def initialCard_def
        activeCardMounted_def rendered_def jsLength_def handleSwipeStart_def
        handleSwipeComplete_def jumpToCardIndex_def swipeBack_def Let_def)
  have r: "fst (run (defaultProps 3)
     [SwipeRightCall, ExitFinished, JumpToCardIndexCall (Num 2), SwipeBackCall]
     (initialWidget (defaultProps 3))) =
     \<lparr>currentIndex = Num 1, isTransitioning = False, swipedCardIndices = [],
      forceRenderKey = 1,
      emitted = [OnSwipeStart Right, OnSwipedRight (Num 0), OnSwipeEnd (Num 0), OnSwipeBack]\<rparr>"
    by (simp add: defaultProps_def initialWidget_def initialState_def initialCard_def
        activeCardMounted_def rendered_def jsLength_def handleSwipeStart_def
        handleSwipeComplete_def jumpToCardIndex_def swipeBack_def Let_def)
  from history_within_cursor[OF h1 h2] h1 h2 r show ?thesis by blast
qed

text \<open>
  Neither proviso can go. On three cards, two completed right swipes and then
  \<open>jumpToCardIndex(0)\<close> leave a history of two entries at cursor 0; and a widget mounted
  with \<open>initialCardIndex = -1\<close> starts with an empty history above its cursor.
\<close>

theorem history_longer_than_cursor_after_jump:
  "\<not> jsLessEq (jsLength (swipedCardIndices (fst (run (defaultProps 3)
       [SwipeRightCall, ExitFinished, SwipeRightCall, ExitFinished, JumpToCardIndexCall (Num 0)]
       (initialWidget (defaultProps 3))))))
     (currentIndex (fst (run (defaultProps 3)
       [SwipeRightCall, ExitFinished, SwipeRightCall, ExitFinished, JumpToCardIndexCall (Num 0)]
       (initialWidget (defaultProps 3))))) \<and>
   \<not> jsLessEq (jsLength (swipedCardIndices (fst (run ((defaultProps 3)\<lparr>initialCardIndex := Num (- 1)\<rparr>) []
       (initialWidget ((defaultProps 3)\<lparr>initialCardIndex := Num (- 1)\<rparr>))))))
     (currentIndex (fst (run ((defaultProps 3)\<lparr>initialCardIndex := Num (- 1)\<rparr>) []
       (initialWidget ((defaultProps 3)\<lparr>initialCardIndex := Num (- 1)\<rparr>)))))"
  by (simp add: defaultProps_def initialWidget_def initialState_def initialCard_def
        activeCardMounted_def rendered_def jsLength_def handleSwipeStart_def
        handleSwipeComplete_def jumpToCardIndex_def Let_def)

subsection \<open>Undo is the inverse of commit (C3)\<close>

lemma step_starts_exit:
  assumes "exiting c = None" and "exiting (snd (step p a (s, c))) \<noteq> None"
  shows "\<exists>d c'. step p a (s, c) = (handleSwipeStart d s, c') \<and> exiting c' = Some d
           \<and> activeCardMounted p s"
  using assms
  by (cases a) (auto simp: onBegin_def onUpdate_def Let_def split: if_splits)

lemma shifted_upt:
  "map (\<lambda>j. Num (r + real j)) [0..<Suc n] = Num r # map (\<lambda>j. Num (r + 1 + real j)) [0..<n]"
  by (induction n) simp_all

lemma commits_mounted:
  "commits p (a # as) (s, c) = Some w \<Longrightarrow> activeCardMounted p s"
  using step_starts_exit[of c p a s] by (auto split: if_splits)

lemma commits_effect:
  "commits p as (s, c) = Some (s', c') \<Longrightarrow> currentIndex s = Num r \<Longrightarrow>
     currentIndex s' = Num (r + real (length as)) \<and>
     swipedCardIndices s' = swipedCardIndices s @ map (\<lambda>j. Num (r + real j)) [0..<length as]"
proof (induction as arbitrary: s c r)
  case Nil
  then show ?case by simp
next
  case (Cons a as)
  from Cons.prems(1) have ex: "exiting c = None" "exiting (snd (step p a (s, c))) \<noteq> None"
    and rest: "commits p as (exitFinished (step p a (s, c))) = Some (s', c')"
    by (auto split: if_splits)
  from step_starts_exit[OF ex] obtain d c1 where
    st: "step p a (s, c) = (handleSwipeStart d s, c1)" and c1: "exiting c1 = Some d"
    by blast
  let ?s1 = "handleSwipeComplete d (handleSwipeStart d s)"
  from rest st c1 have "commits p as (?s1, initialCard\<lparr>sent := sent c1 @ [SwipeComplete d]\<rparr>) = Some (s', c')"
    by simp
  moreover have cur: "currentIndex ?s1 = Num (r + 1)"
    and hist: "swipedCardIndices ?s1 = swipedCardIndices s @ [Num r]"
    using Cons.prems(2) by (simp_all add: handleSwipeComplete_def handleSwipeStart_def Let_def)
  ultimately have
    ih1: "currentIndex s' = Num (r + 1 + real (length as))" and
    ih2: "swipedCardIndices s' = swipedCardIndices ?s1 @ map (\<lambda>j. Num (r + 1 + real j)) [0..<length as]"
    using Cons.IH[of ?s1 _ "r + 1"] by simp_all
  have "map (\<lambda>j. Num (r + real j)) [0..<length (a # as)]
        = Num r # map (\<lambda>j. Num (r + 1 + real j)) [0..<length as]"
    using shifted_upt[of r "length as"] by simp
  then have "swipedCardIndices s' =
      swipedCardIndices s @ map (\<lambda>j. Num (r + real j)) [0..<length (a # as)]"
    using ih2 by (simp only: hist append_assoc append_Cons append_Nil)
  moreover have "currentIndex s' = Num (r + real (length (a # as)))"
    using ih1 by (simp add: algebra_simps)
  ultimately show ?case by blast
qed

lemma swipeBack_funpow:
  "n \<le> length (swipedCardIndices s) \<Longrightarrow> currentIndex s = Num r \<Longrightarrow> real n \<le> r \<Longrightarrow>
     currentIndex ((swipeBack ^^ n) s) = Num (r - real n) \<and>
     swipedCardIndices ((swipeBack ^^ n) s) = take (length (swipedCardIndices s) - n) (swipedCardIndices s)"
proof (induction n)
  case 0
  then show ?case by simp
next
  case (Suc n)
  define t where "t = (swipeBack ^^ n) s"
  have t1: "currentIndex t = Num (r - real n)"
    and t2: "swipedCardIndices t = take (length (swipedCardIndices s) - n) (swipedCardIndices s)"
    using Suc by (simp_all add: t_def)
  from Suc.prems have pos: "0 < r - real n" "0 < length (swipedCardIndices s) - n"
    by simp_all
  have "currentIndex (swipeBack t) = Num (r - real (Suc n))"
    using t1 t2 pos by (simp add: swipeBack_def algebra_simps)
  moreover have "swipedCardIndices (swipeBack t)
      = take (length (swipedCardIndices s) - Suc n) (swipedCardIndices s)"
    using t1 t2 pos by (simp add: swipeBack_def butlast_take)
  ultimately show ?case by (simp add: t_def)
qed

text \<open>
  C3 (undo inverse). Whatever run of successful commits, programmatic or by gesture, leads
  from the initial state to a state \<open>s\<close>, as many \<open>swipeBack\<close> calls as there were commits
  restore the initial cursor and the empty history, and one more \<open>swipeBack\<close> changes
  nothing at all.
\<close>

theorem undo_round_trip:
  assumes "commits p as (initialWidget p) = Some (s, c)"
  shows "currentIndex ((swipeBack ^^ length as) s) = initialCardIndex p \<and>
         swipedCardIndices ((swipeBack ^^ length as) s) = [] \<and>
         swipeBack ((swipeBack ^^ length as) s) = (swipeBack ^^ length as) s"
proof -
  have ab: "currentIndex ((swipeBack ^^ length as) s) = initialCardIndex p \<and>
            swipedCardIndices ((swipeBack ^^ length as) s) = []"
  proof (cases as)
    case Nil
    with assms show ?thesis by (auto simp: initialWidget_def initialState_def)
  next
    case (Cons x xs)
    with assms have "activeCardMounted p (initialState p)"
      using commits_mounted[of p x xs "initialState p" initialCard "(s, c)"]
      by (simp add: initialWidget_def)
    then obtain k where k: "initialCardIndex p = Num (of_int k)" "0 \<le> k"
      by (auto simp: activeCardMounted_iff initialState_def)
    from assms k have eff:
      "currentIndex s = Num (of_int k + real (length as))"
      "swipedCardIndices s = map (\<lambda>j. Num (of_int k + real j)) [0..<length as]"
      using commits_effect[of p as "initialState p" initialCard s c "of_int k"]
      by (simp_all add: initialWidget_def initialState_def)
    have le: "length as \<le> length (swipedCardIndices s)"
      "real (length as) \<le> of_int k + real (length as)"
      using eff k by simp_all
    from swipeBack_funpow[OF le(1) eff(1) le(2)] eff k show ?thesis by simp
  qed
  then have b: "swipedCardIndices ((swipeBack ^^ length as) s) = []" by simp
  then have "swipeBack ((swipeBack ^^ length as) s) = (swipeBack ^^ length as) s"
    by (simp add: swipeBack_def)
  with ab show ?thesis by simp
qed

theorem undo_round_trip_witness:
  "commits (defaultProps 3)
     [SwipeRightCall, PanEnd \<lparr>translationX = - 150, translationY = 20\<rparr>]
     (initialWidget (defaultProps 3)) =
   Some (\<lparr>currentIndex = Num 2, isTransitioning = False, swipedCardIndices = [Num 0, Num 1],
           forceRenderKey = 0,
           emitted = [OnSwipeStart Right, OnSwipedRight (Num 0), OnSwipeEnd (Num 0),
                      OnSwipeStart Left, OnSwipedLeft (Num 1), OnSwipeEnd (Num 1)]\<rparr>,
         \<lparr>offsetX = 0, offsetY = 0, scale = 1, isDragging = False, exiting = None,
           sent = [SwipeStart Right, SwipeComplete Right,
                   SwipeStart Left, SwipeComplete Left]\<rparr>) \<and>
   currentIndex ((swipeBack ^^ 2)
     \<lparr>currentIndex = Num 2, isTransitioning = False, swipedCardIndices = [Num 0, Num 1],
      forceRenderKey = 0,
      emitted = [OnSwipeStart Right, OnSwipedRight (Num 0), OnSwipeEnd (Num 0),
                 OnSwipeStart Left, OnSwipedLeft (Num 1), OnSwipeEnd (Num 1)]\<rparr>) = Num 0 \<and>
   swipedCardIndices ((swipeBack ^^ 2)
     \<lparr>currentIndex = Num 2, isTransitioning = False, swipedCardIndices = [Num 0, Num 1],
      forceRenderKey = 0,
      emitted = [OnSwipeStart Right, OnSwipedRight (Num 0), OnSwipeEnd (Num 0),
                 OnSwipeStart Left, OnSwipedLeft (Num 1), OnSwipeEnd (Num 1)]\<rparr>) = []"
proof -
  have h: "commits (defaultProps 3)
     [SwipeRightCall, PanEnd \<lparr>translationX = - 150, translationY = 20\<rparr>]
     (initialWidget (defaultProps 3)) =
   Some (\<lparr>currentIndex = Num 2, isTransitioning = False, swipedCardIndices = [Num 0, Num 1],
           forceRenderKey = 0,
           emitted = [OnSwipeStart Right, OnSwipedRight (Num 0), OnSwipeEnd (Num 0),
                      OnSwipeStart Left, OnSwipedLeft (Num 1), OnSwipeEnd (Num 1)]\<rparr>,
         \<lparr>offsetX = 0, offsetY = 0, scale = 1, isDragging = False, exiting = None,
           sent = [SwipeStart Right, SwipeComplete Right,
                   SwipeStart Left, SwipeComplete Left]\<rparr>)"
    by (simp add: defaultProps_def initialWidget_def initialState_def initialCard_def
        activeCardMounted_def rendered_def jsLength_def handleSwipeStart_def handleSwipeComplete_def Let_def)
  from undo_round_trip[OF h] h show ?thesis
    by (simp add: defaultProps_def numeral_2_eq_2)
qed

subsection \<open>The lock (C4)\<close>

text \<open>
  C4 (lock exclusion). While \<open>isTransitioning\<close> holds, \<open>swipeLeft\<close> and \<open>swipeRight\<close>
  return the widget as it is: no callback, no exit animation. In the revision that has
  \<open>swipeUp\<close>, the three swipe methods invoke nothing on the card while the lock is held.
  \<open>swipeBack\<close> and \<open>jumpToCardIndex\<close> never read the lock: they do to a locked state
  what they do to the unlocked one, and leave the lock as it is.
\<close>

theorem lock_exclusion:
  assumes "isTransitioning s" and "isTransitioning' s'"
  shows "swipeLeft p (s, c) = (s, c) \<and> swipeRight p (s, c) = (s, c) \<and>
         swipeLeft' p' s' = None \<and> swipeRight' p' s' = None \<and> swipeUp' p' s' = None \<and>
         swipeBack (t\<lparr>isTransitioning := b\<rparr>) = (swipeBack t)\<lparr>isTransitioning := b\<rparr> \<and>
         jumpToCardIndex p i (t\<lparr>isTransitioning := b\<rparr>) =
           (jumpToCardIndex p i t)\<lparr>isTransitioning := b\<rparr> \<and>
         swipeBack' (t'\<lparr>isTransitioning' := b\<rparr>) = (swipeBack' t')\<lparr>isTransitioning' := b\<rparr> \<and>
         jumpToCardIndex' p' i (t'\<lparr>isTransitioning' := b\<rparr>) =
           (jumpToCardIndex' p' i t')\<lparr>isTransitioning' := b\<rparr>"
  using assms
  by (simp add: swipeLeft'_def swipeRight'_def swipeUp'_def swipeBack_def swipeBack'_def
      jumpToCardIndex_def jumpToCardIndex'_def)

theorem lock_exclusion_witness:
  "isTransitioning (handleSwipeStart Right (initialState (defaultProps 3))) \<and>
   isTransitioning' (handleSwipeStart' Up' initialState') \<and>
   swipeLeft (defaultProps 3)
     (handleSwipeStart Right (initialState (defaultProps 3)), initialCard) =
     (handleSwipeStart Right (initialState (defaultProps 3)), initialCard) \<and>
   swipeRight (defaultProps 3)
     (handleSwipeStart Right (initialState (defaultProps 3)), initialCard) =
     (handleSwipeStart Right (initialState (defaultProps 3)), initialCard) \<and>
   swipeUp' (defaultProps' 3) (handleSwipeStart' Up' initialState') = None \<and>
   swipeUp' (defaultProps' 3) initialState' = Some TriggerSwipeUp \<and>
   swipeRight (defaultProps 3) (initialState (defaultProps 3), initialCard) \<noteq>
     (initialState (defaultProps 3), initialCard)"
proof -
  have h1: "isTransitioning (handleSwipeStart Right (initialState (defaultProps 3)))"
    by (simp add: handleSwipeStart_def)
  have h2: "isTransitioning' (handleSwipeStart' Up' initialState')"
    by (simp add: handleSwipeStart'_def)
  have free: "swipeUp' (defaultProps' 3) initialState' = Some TriggerSwipeUp"
    by (simp add: swipeUp'_def defaultProps'_def initialState'_def activeCardMounted'_def jsLength_def)
  have free': "swipeRight (defaultProps 3) (initialState (defaultProps 3), initialCard) \<noteq>
     (initialState (defaultProps 3), initialCard)"
    by (simp add: defaultProps_def initialState_def initialCard_def activeCardMounted_def
        rendered_def jsLength_def handleSwipeStart_def)
  from lock_exclusion[OF h1 h2, of "defaultProps 3" initialCard "defaultProps' 3"] h1 h2 free free'
  show ?thesis by blast
qed

subsection \<open>Retention of the history (C5)\<close>

lemma run_append: "run p (xs @ ys) w = run p ys (run p xs w)"
  by (induction xs arbitrary: w) simp_all

lemma programmatic_commits:
  assumes "\<not> disableRightSwipe p" and "\<not> jsLessEq (stackSize p) (Num 0)"
  shows "\<not> isTransitioning s \<Longrightarrow> currentIndex s = Num (real m) \<Longrightarrow>
         m + n \<le> length (cards p) \<Longrightarrow>
         swipedCardIndices (fst (run p (concat (replicate n [SwipeRightCall, ExitFinished])) (s, c))) =
           swipedCardIndices s @ map (\<lambda>j. Num (real m + real j)) [0..<n] \<and>
         currentIndex (fst (run p (concat (replicate n [SwipeRightCall, ExitFinished])) (s, c))) =
           Num (real m + real n)"
proof (induction n arbitrary: s c m)
  case 0
  then show ?case by simp
next
  case (Suc n)
  let ?s1 = "handleSwipeComplete Right (handleSwipeStart Right s)"
  let ?c1 = "initialCard\<lparr>sent := sent c @ [SwipeStart Right, SwipeComplete Right]\<rparr>"
  have mounted: "activeCardMounted p s"
    unfolding activeCardMounted_iff
    using Suc.prems assms(2) by (intro exI[of _ "int m"]) simp
  have one: "run p [SwipeRightCall, ExitFinished] (s, c) = (?s1, ?c1)"
    by (rule programmatic_commit[OF assms(1) Suc.prems(1) mounted])
  have cur: "currentIndex ?s1 = Num (real (Suc m))"
    and hist: "swipedCardIndices ?s1 = swipedCardIndices s @ [Num (real m)]"
    and unl: "\<not> isTransitioning ?s1"
    using Suc.prems(2)
    by (simp_all add: handleSwipeComplete_def handleSwipeStart_def Let_def add.commute)
  have split: "run p (concat (replicate (Suc n) [SwipeRightCall, ExitFinished])) (s, c) =
        run p (concat (replicate n [SwipeRightCall, ExitFinished])) (?s1, ?c1)"
    using run_append[of p "[SwipeRightCall, ExitFinished]"
        "concat (replicate n [SwipeRightCall, ExitFinished])" "(s, c)"] one
    by simp
  have pre: "Suc m + n \<le> length (cards p)" using Suc.prems by simp
  from Suc.IH[OF unl cur pre, of ?c1] have
    ih1: "swipedCardIndices (fst (run p (concat (replicate n [SwipeRightCall, ExitFinished])) (?s1, ?c1))) =
           swipedCardIndices ?s1 @ map (\<lambda>j. Num (real (Suc m) + real j)) [0..<n]" and
    ih2: "currentIndex (fst (run p (concat (replicate n [SwipeRightCall, ExitFinished])) (?s1, ?c1))) =
           Num (real (Suc m) + real n)"
    by simp_all
  have sh: "map (\<lambda>j. Num (real m + real j)) [0..<Suc n] =
      Num (real m) # map (\<lambda>j. Num (real (Suc m) + real j)) [0..<n]"
    using shifted_upt[of "real m" n] by (simp add: add.commute add.left_commute)
  have "swipedCardIndices (fst (run p (concat (replicate (Suc n) [SwipeRightCall, ExitFinished])) (s, c)))
      = swipedCardIndices s @ map (\<lambda>j. Num (real m + real j)) [0..<Suc n]"
    using ih1 by (simp only: split sh hist append_assoc append_Cons append_Nil)
  moreover have "currentIndex (fst (run p (concat (replicate (Suc n) [SwipeRightCall, ExitFinished])) (s, c)))
      = Num (real m + real (Suc n))"
    using ih2 by (simp only: split) simp
  ultimately show ?case by blast
qed

text \<open>
  C5 (retention cap). This controller has no cap: on a deck of \<open>n\<close> cards, \<open>n\<close> completed
  right swipes from the initial state leave all \<open>n\<close> indices in the history, whatever
  \<open>n\<close> is, so no constant bounds its length.
\<close>

theorem history_grows_with_every_commit:
  "swipedCardIndices (fst (run (defaultProps n)
      (concat (replicate n [SwipeRightCall, ExitFinished]))
      (initialWidget (defaultProps n)))) = map (\<lambda>j. Num (real j)) [0..<n]"
proof -
  have a: "\<not> disableRightSwipe (defaultProps n)"
    and b: "\<not> jsLessEq (stackSize (defaultProps n)) (Num 0)"
    by (simp_all add: defaultProps_def)
  have "swipedCardIndices (fst (run (defaultProps n)
      (concat (replicate n [SwipeRightCall, ExitFinished]))
      (initialState (defaultProps n), initialCard))) =
      swipedCardIndices (initialState (defaultProps n)) @
        map (\<lambda>j. Num (real 0 + real j)) [0..<n]"
    using programmatic_commits[OF a b, of "initialState (defaultProps n)" 0 n initialCard]
    by (simp add: defaultProps_def initialState_def)
  then show ?thesis
    by (simp add: initialWidget_def initialState_def defaultProps_def)
qed

text \<open>
  The revision with the up direction does cap the history: an entry is appended and, past
  50 entries, the oldest are dropped. No run of its entry points leaves more than 50.
\<close>

lemma handleSwipeComplete'_history:
  "swipedCardIndices' (handleSwipeComplete' d s) =
     drop (Suc (length (swipedCardIndices' s)) - 50) (swipedCardIndices' s @ [currentCardIndex s])"
  by (simp add: handleSwipeComplete'_def Let_def)

lemma step'_capped:
  "length (swipedCardIndices' s) \<le> 50 \<Longrightarrow> length (swipedCardIndices' (step' p e s)) \<le> 50"
  by (cases e)
     (auto simp: handleSwipeStart'_def handleSwipeComplete'_def handleSwipeCancel'_def
        swipeBack'_def jumpToCardIndex'_def Let_def)

lemma run'_capped:
  "length (swipedCardIndices' s) \<le> 50 \<Longrightarrow> length (swipedCardIndices' (run' p es s)) \<le> 50"
  by (induction es arbitrary: s) (simp_all add: step'_capped)

lemma history'_capped:
  "length (swipedCardIndices' (run' p es initialState')) \<le> 50"
  by (rule run'_capped) (simp add: initialState'_def)

text \<open>
  What the cap costs: after 51 completed swipes the first index is gone, and 51 calls of
  \<open>swipeBack\<close> end at cursor 1 with nothing left to undo.
\<close>

lemma cap_breaks_round_trip:
  "currentCardIndex (run' (defaultProps' 60)
     (replicate 51 (CompleteSink Right') @ replicate 51 SwipeBackCall') initialState') = Num 1 \<and>
   swipedCardIndices' (run' (defaultProps' 60)
     (replicate 51 (CompleteSink Right') @ replicate 51 SwipeBackCall') initialState') = []"
  by code_simp

subsection \<open>The up direction (C6)\<close>

text \<open>
  C6 (swipeUp). The handle this controller exposes has no \<open>swipeUp\<close>: the object holds
  \<open>swipeLeft\<close>, \<open>swipeRight\<close>, \<open>swipeBack\<close> and \<open>jumpToCardIndex\<close> only, and a completed
  swipe invokes \<open>onSwipedLeft\<close> or \<open>onSwipedRight\<close>, there being no callback for up.
\<close>

theorem handle_without_swipeUp:
  "map_of SuperSwiperHandles ''swipeUp'' = None \<and>
   map fst SuperSwiperHandles = [''swipeLeft'', ''swipeRight'', ''swipeBack'', ''jumpToCardIndex''] \<and>
   emitted (handleSwipeComplete d s) \<in>
     {emitted s @ [OnSwipedLeft (currentIndex s), OnSwipeEnd (currentIndex s)],
      emitted s @ [OnSwipedRight (currentIndex s), OnSwipeEnd (currentIndex s)]}"
  by (simp add: SuperSwiperHandles_def handleSwipeComplete_def Let_def)

text \<open>
  The revision with the up direction exposes \<open>swipeUp\<close>, guarded as \<open>swipeLeft\<close> and
  \<open>swipeRight\<close> are, and reports a completed up swipe through \<open>onSwipedUp\<close> and then
  \<open>onSwipeEnd\<close>.
\<close>

lemma swipeUp'_exposed:
  "''swipeUp'' \<in> set SuperSwiperHandles' \<and>
   swipeUp' p s =
     (if swipeUpEnabled p \<and> \<not> isTransitioning' s \<and> activeCardMounted' p s
      then Some TriggerSwipeUp else None) \<and>
   emitted' (handleSwipeComplete' Up' s) =
     emitted' s @ [OnSwipedUp' (currentCardIndex s), OnSwipeEnd' (currentCardIndex s)]"
  by (auto simp: SuperSwiperHandles'_def swipeUp'_def handleSwipeComplete'_def
      activeCardMounted'_def Let_def split: JSNumber.splits)

subsection \<open>Cancel at release (C7)\<close>

text \<open>
  C7 (cancel at release). The first half does not hold of \<open>Card\<close>: its \<open>onEnd\<close>
  springs the card back and never invokes \<open>onSwipeCancel\<close>, a prop that \<open>CardProps\<close>
  documents as called when a swipe is cancelled and that the controller passes in. A
  release at 50 under threshold 100 leaves the controller untouched; no release adds a
  \<open>SwipeCancel\<close> to the calls of the card; a release that commits nothing leaves the lock
  as it found it. So a lock taken by \<open>swipeRight\<close> is still held after the user catches
  the card and lets it go under the threshold, and the next \<open>swipeRight\<close> is refused.
  The second half holds: \<open>handleSwipeCancel\<close> clears the lock and nothing else.
\<close>

theorem release_never_notifies_cancel:
  "onEnd (defaultProps 3) \<lparr>translationX = 50, translationY = 0\<rparr> (s, c) =
     (s, c\<lparr>isDragging := False, offsetX := 0, offsetY := 0, scale := 1, exiting := None\<rparr>) \<and>
   filter (\<lambda>x. x = SwipeCancel) (sent (snd (onEnd p e (s, c)))) =
     filter (\<lambda>x. x = SwipeCancel) (sent c) \<and>
   isTransitioning (fst (onEnd p e (s, c))) =
     (isTransitioning s \<or> exiting (snd (onEnd p e (s, c))) \<noteq> None) \<and>
   handleSwipeCancel s = s\<lparr>isTransitioning := False\<rparr> \<and>
   fst (run (defaultProps 3)
     [SwipeRightCall, PanBegin, PanUpdate \<lparr>translationX = 50, translationY = 0\<rparr>,
      PanEnd \<lparr>translationX = 50, translationY = 0\<rparr>, SwipeRightCall, ExitFinished]
     (initialWidget (defaultProps 3))) =
     \<lparr>currentIndex = Num 0, isTransitioning = True, swipedCardIndices = [],
      forceRenderKey = 0, emitted = [OnSwipeStart Right]\<rparr>"
  by (simp add: Let_def handleSwipeStart_def handleSwipeCancel_def defaultProps_def
      initialWidget_def initialState_def initialCard_def activeCardMounted_def rendered_def jsLength_def
      onBegin_def onUpdate_def)

subsection \<open>Range of the cursor (C8)\<close>

lemma isInteger_step_up: "isInteger x \<Longrightarrow> isInteger (jsAdd x (Num 1))"
  by (cases x) (auto simp: Ints_def)

lemma isInteger_step_down: "isInteger x \<Longrightarrow> isInteger (jsSub x (Num 1))"
  by (cases x) (auto simp: Ints_def)

lemma integer_below_length:
  "isInteger x \<Longrightarrow> jsLess x (Num (real n)) \<Longrightarrow> jsLessEq (jsAdd x (Num 1)) (Num (real n))"
proof (cases x)
  case (Num a)
  assume "isInteger x" "jsLess x (Num (real n))"
  with Num have i: "a = of_int \<lfloor>a\<rfloor>" and lt: "a < real n" by auto
  from lt have "\<lfloor>a\<rfloor> < int n" by (simp add: floor_less_iff)
  then have "\<lfloor>a\<rfloor> + 1 \<le> int n" by simp
  then have "real_of_int (\<lfloor>a\<rfloor> + 1) \<le> real n" by (metis of_int_le_iff of_int_of_nat_eq)
  with i have "a + 1 \<le> real n" by (metis of_int_add of_int_1)
  with Num show ?thesis by simp
qed simp_all

lemma integer_above_zero:
  "isInteger x \<Longrightarrow> \<not> jsLessEq x (Num 0) \<Longrightarrow> jsLessEq (Num 0) (jsSub x (Num 1))"
proof (cases x)
  case (Num a)
  assume "isInteger x" "\<not> jsLessEq x (Num 0)"
  with Num have i: "a = of_int \<lfloor>a\<rfloor>" and gt: "0 < a" by auto
  from gt have "0 < \<lfloor>a\<rfloor>" using i by (metis of_int_0_less_iff)
  then have "1 \<le> \<lfloor>a\<rfloor>" by simp
  then have "1 \<le> real_of_int \<lfloor>a\<rfloor>" by simp
  with i have "1 \<le> a" by simp
  with Num show ?thesis by simp
qed simp_all

lemma jump_in_range:
  "isInteger i \<Longrightarrow> \<not> jsLess i (Num 0) \<Longrightarrow> \<not> jsLessEq (Num n) i \<Longrightarrow>
     jsLessEq (Num 0) i \<and> jsLess i (Num n) \<and> jsLessEq i (Num n)"
  by (cases i) auto

lemma jsLess_imp_jsLessEq: "jsLess x y \<Longrightarrow> jsLessEq x y"
  by (cases x; cases y) simp_all

lemma step_down_below:
  "jsLessEq x (Num n) \<Longrightarrow> jsLessEq (jsSub x (Num 1)) (Num n)"
  "jsLess x (Num n) \<Longrightarrow> jsLess (jsSub x (Num 1)) (Num n)"
  by (cases x; simp)+

lemma step_up_above: "jsLessEq (Num 0) x \<Longrightarrow> jsLessEq (Num 0) (jsAdd x (Num 1))"
  by (cases x) simp_all

lemma triggerFullSwipe_in_range:
  "inRange p (s, c) \<Longrightarrow> activeCardMounted p s \<Longrightarrow> inRange p (triggerFullSwipe p d (s, c))"
  using mounted_below_length[of p s]
  by (auto simp: inRange_def handleSwipeStart_def)

lemma step_in_range:
  assumes "inRange p (s, c)"
    and "case a of JumpToCardIndexCall index \<Rightarrow> isInteger index | _ \<Rightarrow> True"
  shows "inRange p (step p a (s, c))"
proof (cases a)
  case SwipeLeftCall
  with assms(1) triggerFullSwipe_in_range[of p s c Left] show ?thesis
    by (auto simp del: triggerFullSwipe.simps)
next
  case SwipeRightCall
  with assms(1) triggerFullSwipe_in_range[of p s c Right] show ?thesis
    by (auto simp del: triggerFullSwipe.simps)
next
  case SwipeBackCall
  with assms(1) show ?thesis
    by (auto simp: inRange_def swipeBack_def jsLength_def isInteger_step_down
        integer_above_zero step_down_below)
next
  case (JumpToCardIndexCall i)
  with assms show ?thesis
    using jump_in_range[of i "real (length (cards p))"]
    by (auto simp: inRange_def jumpToCardIndex_def jsLength_def)
next
  case PanBegin
  with assms(1) show ?thesis by (auto simp: inRange_def onBegin_def)
next
  case (PanUpdate e)
  with assms(1) show ?thesis by (auto simp: inRange_def onUpdate_def)
next
  case (PanEnd e)
  have "inRange p (s, c\<lparr>isDragging := False\<rparr>)" using assms(1) by (simp add: inRange_def)
  from triggerFullSwipe_in_range[OF this] assms(1) PanEnd show ?thesis
    by (auto simp: Let_def inRange_def simp del: triggerFullSwipe.simps)
next
  case ExitFinished
  with assms(1) show ?thesis
    using integer_below_length[of "currentIndex s" "length (cards p)"]
    by (auto simp: inRange_def handleSwipeComplete_def Let_def initialCard_def jsLength_def
        isInteger_step_up step_up_above split: option.splits)
qed

lemma run_in_range:
  "inRange p w \<Longrightarrow> integerJumps as \<Longrightarrow> inRange p (run p as w)"
proof (induction as arbitrary: w)
  case Nil
  then show ?case by simp
next
  case (Cons a as)
  obtain s c where w: "w = (s, c)" by (cases w)
  from Cons.prems(2) have here:
    "case a of JumpToCardIndexCall index \<Rightarrow> isInteger index | _ \<Rightarrow> True"
    and rest: "integerJumps as" by simp_all
  from step_in_range[OF Cons.prems(1)[unfolded w] here] Cons.IH[OF _ rest] w
  show ?case by simp
qed

text \<open>
  C8 (cursor range), as amended. The cursor starts at the prop \<open>initialCardIndex\<close> and
  \<open>jumpToCardIndex\<close> stores its argument once \<open>index < 0\<close> and
  \<open>index >= cards.length\<close> are both false; neither is checked for being an integer.
  When \<open>initialCardIndex\<close> is an integer within \<open>0 .. length cards\<close> and every jump is
  given an integer, the cursor is an integer within \<open>0 .. length cards\<close> in every state
  the widget reaches, whatever handle calls, gestures and animation completions occur;
  and with the stack exhausted (\<open>currentIndex = length cards\<close>) a call of \<open>swipeRight\<close>
  changes nothing.
\<close>

theorem cursor_within_cards:
  assumes "isInteger (initialCardIndex p)" and "jsLessEq (Num 0) (initialCardIndex p)"
    and "jsLessEq (initialCardIndex p) (jsLength (cards p))" and "integerJumps as"
  shows "jsLessEq (Num 0) (currentIndex (fst (run p as (initialWidget p)))) \<and>
         jsLessEq (currentIndex (fst (run p as (initialWidget p)))) (jsLength (cards p)) \<and>
         isInteger (currentIndex (fst (run p as (initialWidget p)))) \<and>
         (currentIndex s = jsLength (cards p) \<longrightarrow> swipeRight p (s, c) = (s, c))"
proof -
  have "inRange p (initialWidget p)"
    using assms(1-3) by (simp add: inRange_def initialWidget_def initialState_def initialCard_def)
  from run_in_range[OF this assms(4)] show ?thesis
    by (auto simp: inRange_def jsLength_def)
qed

theorem cursor_within_cards_witness:
  "isInteger (initialCardIndex (defaultProps 2)) \<and>
   jsLessEq (Num 0) (initialCardIndex (defaultProps 2)) \<and>
   jsLessEq (initialCardIndex (defaultProps 2)) (jsLength (cards (defaultProps 2))) \<and>
   integerJumps [SwipeRightCall, ExitFinished, JumpToCardIndexCall (Num 0),
     SwipeRightCall, ExitFinished, SwipeRightCall, ExitFinished, SwipeRightCall, ExitFinished] \<and>
   fst (run (defaultProps 2)
     [SwipeRightCall, ExitFinished, JumpToCardIndexCall (Num 0),
      SwipeRightCall, ExitFinished, SwipeRightCall, ExitFinished, SwipeRightCall, ExitFinished]
     (initialWidget (defaultProps 2))) =
     \<lparr>currentIndex = Num 2, isTransitioning = False,
      swipedCardIndices = [Num 0, Num 0, Num 1], forceRenderKey = 1,
      emitted = [OnSwipeStart Right, OnSwipedRight (Num 0), OnSwipeEnd (Num 0),
                 OnSwipeStart Right, OnSwipedRight (Num 0), OnSwipeEnd (Num 0),
                 OnSwipeStart Right, OnSwipedRight (Num 1), OnSwipeEnd (Num 1)]\<rparr> \<and>
   jsLessEq (currentIndex (fst (run (defaultProps 2)
     [SwipeRightCall, ExitFinished, JumpToCardIndexCall (Num 0),
      SwipeRightCall, ExitFinished, SwipeRightCall, ExitFinished, SwipeRightCall, ExitFinished]
     (initialWidget (defaultProps 2))))) (jsLength (cards (defaultProps 2))) \<and>
   swipeRight (defaultProps 2)
     (\<lparr>currentIndex = Num 2, isTransitioning = False,
        swipedCardIndices = [Num 0, Num 0, Num 1], forceRenderKey = 1, emitted = []\<rparr>,
      initialCard) =
     (\<lparr>currentIndex = Num 2, isTransitioning = False,
        swipedCardIndices = [Num 0, Num 0, Num 1], forceRenderKey = 1, emitted = []\<rparr>,
      initialCard)"
proof -
  have h1: "isInteger (initialCardIndex (defaultProps 2))"
    and h2: "jsLessEq (Num 0) (initialCardIndex (defaultProps 2))"
    and h3: "jsLessEq (initialCardIndex (defaultProps 2)) (jsLength (cards (defaultProps 2)))"
    by (simp_all add: defaultProps_def jsLength_def)
  have h4: "integerJumps [SwipeRightCall, ExitFinished, JumpToCardIndexCall (Num 0),
     SwipeRightCall, ExitFinished, SwipeRightCall, ExitFinished, SwipeRightCall, ExitFinished]"
    by simp
  have r: "fst (run (defaultProps 2)
     [SwipeRightCall, ExitFinished, JumpToCardIndexCall (Num 0),
      SwipeRightCall, ExitFinished, SwipeRightCall, ExitFinished, SwipeRightCall, ExitFinished]
     (initialWidget (defaultProps 2))) =
     \<lparr>currentIndex = Num 2, isTransitioning = False,
      swipedCardIndices = [Num 0, Num 0, Num 1], forceRenderKey = 1,
      emitted = [OnSwipeStart Right, OnSwipedRight (Num 0), OnSwipeEnd (Num 0),
                 OnSwipeStart Right, OnSwipedRight (Num 0), OnSwipeEnd (Num 0),
                 OnSwipeStart Right, OnSwipedRight (Num 1), OnSwipeEnd (Num 1)]\<rparr>"
    by (simp add: defaultProps_def initialWidget_def initialState_def initialCard_def
        activeCardMounted_def rendered_def jsLength_def handleSwipeStart_def
        handleSwipeComplete_def jumpToCardIndex_def Let_def)
  have e: "currentIndex \<lparr>currentIndex = Num 2, isTransitioning = False,
        swipedCardIndices = [Num 0, Num 0, Num 1], forceRenderKey = 1, emitted = []\<rparr> =
      jsLength (cards (defaultProps 2))"
    by (simp add: defaultProps_def jsLength_def)
  from cursor_within_cards[OF h1 h2 h3 h4,
      of "\<lparr>currentIndex = Num 2, isTransitioning = False,
        swipedCardIndices = [Num 0, Num 0, Num 1], forceRenderKey = 1, emitted = []\<rparr>"
        initialCard] h1 h2 h3 h4 r e
  show ?thesis by metis
qed

text \<open>
  No proviso can go. A widget of two cards mounted with \<open>initialCardIndex = 5\<close> starts
  beyond its deck. On three cards, two completed right swipes, \<open>jumpToCardIndex(0.5)\<close>
  and \<open>swipeBack\<close> end at cursor -0.5: the jump is accepted, and 0.5 is not \<open>\<le> 0\<close>.
  And \<open>jumpToCardIndex(NaN)\<close> is accepted, after which the cursor compares with nothing.
\<close>

theorem cursor_leaves_range:
  "\<not> jsLessEq (currentIndex (fst (run ((defaultProps 2)\<lparr>initialCardIndex := Num 5\<rparr>) []
          (initialWidget ((defaultProps 2)\<lparr>initialCardIndex := Num 5\<rparr>)))))
        (jsLength (cards ((defaultProps 2)\<lparr>initialCardIndex := Num 5\<rparr>))) \<and>
   currentIndex (fst (run (defaultProps 3)
       [SwipeRightCall, ExitFinished, SwipeRightCall, ExitFinished,
        JumpToCardIndexCall (Num 0.5), SwipeBackCall]
       (initialWidget (defaultProps 3)))) = Num (- 0.5) \<and>
   \<not> jsLessEq (Num 0) (currentIndex (fst (run (defaultProps 3)
       [SwipeRightCall, ExitFinished, SwipeRightCall, ExitFinished,
        JumpToCardIndexCall (Num 0.5), SwipeBackCall]
       (initialWidget (defaultProps 3))))) \<and>
   currentIndex (fst (run (defaultProps 3) [JumpToCardIndexCall NaN]
       (initialWidget (defaultProps 3)))) = NaN \<and>
   \<not> jsLessEq (Num 0) (currentIndex (fst (run (defaultProps 3) [JumpToCardIndexCall NaN]
       (initialWidget (defaultProps 3)))))"
  by (simp add: defaultProps_def initialWidget_def initialState_def initialCard_def
        activeCardMounted_def rendered_def jsLength_def handleSwipeStart_def
        handleSwipeComplete_def jumpToCardIndex_def swipeBack_def Let_def)

subsection \<open>The commit test at release (C9)\<close>

text \<open>
  C9 (commit test at release). A release starts the exit animation in direction \<open>d\<close>
  exactly when the horizontal displacement exceeds the threshold in absolute value,
  strictly, \<open>d\<close> is the direction of its sign and \<open>d\<close> is not disabled. With threshold
  100 and both directions enabled: 100 does not commit, 100.01 commits right, -100.01
  commits left. A release that commits announces it through \<open>onSwipeStart\<close>; one that
  does not leaves the controller as it is.
\<close>

theorem release_commit_test:
  "(exiting (snd (onEnd p e (s, c))) = Some d) =
     (\<bar>translationX e\<bar> > swipeThreshold p \<and>
      d = (if translationX e > 0 then Right else Left) \<and>
      (if d = Left then \<not> disableLeftSwipe p else \<not> disableRightSwipe p)) \<and>
   fst (onEnd p e (s, c)) =
     (case exiting (snd (onEnd p e (s, c))) of
        None \<Rightarrow> s
      | Some d' \<Rightarrow> handleSwipeStart d' s) \<and>
   exiting (snd (onEnd (p\<lparr>swipeThreshold := 100, disableLeftSwipe := False, disableRightSwipe := False\<rparr>)
     \<lparr>translationX = 100, translationY = y\<rparr> (s, c))) = None \<and>
   exiting (snd (onEnd (p\<lparr>swipeThreshold := 100, disableLeftSwipe := False, disableRightSwipe := False\<rparr>)
     \<lparr>translationX = 100.01, translationY = y\<rparr> (s, c))) = Some Right \<and>
   exiting (snd (onEnd (p\<lparr>swipeThreshold := 100, disableLeftSwipe := False, disableRightSwipe := False\<rparr>)
     \<lparr>translationX = - 100.01, translationY = y\<rparr> (s, c))) = Some Left"
  by (cases d) (auto simp: Let_def)

subsection \<open>Vertical displacement (C10)\<close>

text \<open>
  C10 (the vertical displacement is not read). Two releases with the same horizontal
  displacement have the same outcome in every component of the widget, whatever their
  vertical displacements.
\<close>

theorem release_ignores_vertical:
  "onEnd p \<lparr>translationX = x, translationY = y1\<rparr> w =
   onEnd p \<lparr>translationX = x, translationY = y2\<rparr> w"
  by (cases w) (simp add: Let_def)

lemma vertical_release_cancels:
  assumes "0 \<le> swipeThreshold p"
  shows "onEnd p \<lparr>translationX = 0, translationY = y\<rparr> (s, c) =
         (s, c\<lparr>isDragging := False, offsetX := 0, offsetY := 0, scale := 1, exiting := None\<rparr>)"
  using assms by (simp add: Let_def)

end
